theory Spec2Isabelle
  imports Main
begin

section \<open>Strings and the Python built-ins the script uses\<close>

text \<open>
  A Python \<open>str\<close> is a sequence of Unicode code points. One of the column names the
  script reads is written in Chinese and \<open>str.strip\<close> removes Unicode white space, so a
  string is modelled as the list of its code points. \<open>u\<close> turns an ASCII literal into
  such a list.
\<close>

type_synonym pystr = "nat list"

definition u :: "string \<Rightarrow> pystr" where
  "u cs = map of_char cs"

text \<open>
  \<open>str.isspace\<close> on one character: the code points for which CPython's
  \<open>_PyUnicode_IsWhitespace\<close> answers true.
\<close>

definition py_isspace :: "nat \<Rightarrow> bool" where
  "py_isspace c \<longleftrightarrow>
     (0x09 \<le> c \<and> c \<le> 0x0D) \<or> (0x1C \<le> c \<and> c \<le> 0x20) \<or> c = 0x85 \<or> c = 0xA0 \<or>
     c = 0x1680 \<or> (0x2000 \<le> c \<and> c \<le> 0x200A) \<or> c = 0x2028 \<or> c = 0x2029 \<or>
     c = 0x202F \<or> c = 0x205F \<or> c = 0x3000"

text \<open>\<open>s.strip()\<close>: leading and trailing white space removed.\<close>

definition py_strip :: "pystr \<Rightarrow> pystr" where
  "py_strip s = rev (dropWhile py_isspace (rev (dropWhile py_isspace s)))"

text \<open>
  \<open>int(s)\<close> for a string, base 10, as CPython 3.11 has it: an optional sign, then
  decimal digits with single underscores allowed between two digits. \<open>None\<close> stands
  for \<open>ValueError\<close>. The script calls \<open>int\<close> on a stripped string only, so the white
  space \<open>int\<close> itself would skip at both ends never occurs and is not modelled.

  A digit is a character with the Unicode property \<open>Decimal\<close>, of any script. In the
  interpreter's character database (Unicode 14.0) these characters come in runs of ten,
  zero to nine; \<open>decimal_zeros\<close> lists the zero of every run.
\<close>

definition decimal_zeros :: "nat list" where
  "decimal_zeros =
     [0x30, 0x660, 0x6F0, 0x7C0, 0x966, 0x9E6, 0xA66, 0xAE6,
      0xB66, 0xBE6, 0xC66, 0xCE6, 0xD66, 0xDE6, 0xE50, 0xED0,
      0xF20, 0x1040, 0x1090, 0x17E0, 0x1810, 0x1946, 0x19D0, 0x1A80,
      0x1A90, 0x1B50, 0x1BB0, 0x1C40, 0x1C50, 0xA620, 0xA8D0, 0xA900,
      0xA9D0, 0xA9F0, 0xAA50, 0xABF0, 0xFF10, 0x104A0, 0x10D30, 0x11066,
      0x110F0, 0x11136, 0x111D0, 0x112F0, 0x11450, 0x114D0, 0x11650, 0x116C0,
      0x11730, 0x118E0, 0x11950, 0x11C50, 0x11D50, 0x11DA0, 0x16A60, 0x16AC0,
      0x16B50, 0x1D7CE, 0x1D7D8, 0x1D7E2, 0x1D7EC, 0x1D7F6, 0x1E140, 0x1E2F0,
      0x1E950, 0x1FBF0]"

definition decimal_zero :: "nat \<Rightarrow> nat option" where
  "decimal_zero c = find (\<lambda>z. z \<le> c \<and> c < z + 10) decimal_zeros"

definition is_digit :: "nat \<Rightarrow> bool" where
  "is_digit c \<longleftrightarrow> decimal_zero c \<noteq> None"

definition digit_value :: "nat \<Rightarrow> int" where
  "digit_value c = (case decimal_zero c of None \<Rightarrow> 0 | Some z \<Rightarrow> int (c - z))"

fun digits_rest :: "int \<Rightarrow> pystr \<Rightarrow> int option" where
  "digits_rest acc [] = Some acc"
| "digits_rest acc [c] =
     (if is_digit c then Some (10 * acc + digit_value c) else None)"
| "digits_rest acc (c # d # cs) =
     (if is_digit c then digits_rest (10 * acc + digit_value c) (d # cs)
      else if c = 0x5F \<and> is_digit d then digits_rest (10 * acc + digit_value d) cs
      else None)"

fun digits :: "pystr \<Rightarrow> int option" where
  "digits [] = None"
| "digits (c # cs) = (if is_digit c then digits_rest (digit_value c) cs else None)"

text \<open>
  \<open>int\<close> raises \<open>ValueError\<close> for a string of more digits than the interpreter's limit,
  whose default the script leaves in place; the sign and the underscores do not count.
\<close>

definition max_str_digits :: nat where
  "max_str_digits = 4300"

definition within_limit :: "pystr \<Rightarrow> bool" where
  "within_limit s \<longleftrightarrow> length (filter is_digit s) \<le> max_str_digits"

fun py_int :: "pystr \<Rightarrow> int option" where
  "py_int [] = None"
| "py_int (c # cs) =
     (if \<not> within_limit (c # cs) then None
      else if c = 0x2B then digits cs
      else if c = 0x2D then map_option uminus (digits cs)
      else digits (c # cs))"

section \<open>Rows of the table\<close>

text \<open>
  \<open>csv.DictReader\<close> hands the loop one \<open>dict\<close> per data line that is not empty.
  Its keys are the names of the header line; a value is a string, or \<open>None\<close> where the
  line has fewer fields than the header (\<open>restval\<close>).
\<close>

datatype cell = PyNone | Str pystr

type_synonym row = "pystr \<rightharpoonup> cell"

text \<open>\<open>row.get(key, default)\<close>.\<close>

definition dict_get :: "row \<Rightarrow> pystr \<Rightarrow> cell \<Rightarrow> cell" where
  "dict_get r k d = (case r k of None \<Rightarrow> d | Some v \<Rightarrow> v)"

text \<open>
  How \<open>DictReader\<close> makes the \<open>dict\<close> of a line: \<open>dict(zip(fieldnames, row))\<close>, in
  which a later column of the same name wins, then \<open>None\<close> for the columns the line is
  too short for. Fields beyond the header go under the key \<open>None\<close>, which the script
  never reads.
\<close>

definition dict_row :: "pystr list \<Rightarrow> pystr list \<Rightarrow> row" where
  "dict_row fieldnames line =
     map_of (rev (zip fieldnames (map Str line))) ++
     map_of (map (\<lambda>k. (k, PyNone)) (drop (length line) fieldnames))"

text \<open>The display-name column, U+540D U+7A31.\<close>

definition name_column :: pystr where
  "name_column = [0x540D, 0x7A31]"

definition REQUIRED_COLUMNS :: "pystr list" where
  "REQUIRED_COLUMNS =
     [u ''ID'', name_column, u ''Category'', u ''Color'', u ''Cut'', u ''Carat'',
      u ''Clarity'', u ''Rarity'', u ''image'', u ''animation_url'']"

section \<open>Description\<close>

definition generate_description :: "pystr \<Rightarrow> pystr \<Rightarrow> pystr" where
  "generate_description cut' color =
     (let cut_display = (if cut' = u ''Brilliant'' then u ''RoundBrilliant'' else cut')
      in u ''A unique '' @ cut_display @ u '' cut gemstone in '' @ color @ u '' color.'')"

section \<open>The document\<close>

text \<open>
  The value handed to \<open>json.dump\<close>: a \<open>dict\<close> keeps the order in which its keys were
  inserted, so an object is a list of pairs.
\<close>

datatype json = JStr pystr | JInt int | JList "json list" | JObj "(pystr \<times> json) list"

definition trait :: "string \<Rightarrow> json \<Rightarrow> json" where
  "trait t v = JObj [(u ''trait_type'', JStr (u t)), (u ''value'', v)]"

definition json_data ::
  "pystr \<Rightarrow> pystr \<Rightarrow> pystr \<Rightarrow> pystr \<Rightarrow> int \<Rightarrow> pystr \<Rightarrow> pystr \<Rightarrow> pystr \<Rightarrow> pystr \<Rightarrow> json" where
  "json_data name description cut' color_name carat_value clarity rarity image' animation_url =
     JObj [(u ''name'', JStr name),
           (u ''description'', JStr description),
           (u ''attributes'',
              JList [trait ''Cut'' (JStr cut'),
                     trait ''Color'' (JStr color_name),
                     trait ''Carat'' (JInt carat_value),
                     trait ''Clarity'' (JStr clarity),
                     trait ''Rarity'' (JStr rarity)]),
           (u ''image'', JStr image'),
           (u ''animation_url'', JStr animation_url)]"

section \<open>What the script prints\<close>

text \<open>
  The lines the script prints. A line that interpolates row data or a counter has a
  constructor of its own, which carries those values; every other line is \<open>Info\<close>
  with the words of the source, without its leading symbol and without the paths, the
  URL, the sizes or the text of an exception that it interpolates.
\<close>

datatype exn = AttributeError | OSError

datatype message =
    Info string
  | HttpError nat
  | UsingColumns "pystr list"
  | SkipMissingFields pystr
  | SkipInvalidCarat pystr pystr
  | Processed nat
  | SkipMissingColumn pystr
  | ErrorProcessing cell exn
  | Generated nat
  | Skipped nat

text \<open>The fixed lines, named for the place that prints them.\<close>

abbreviation Downloading :: message where
  "Downloading \<equiv> Info ''Downloading CSV from Google Sheets...''"

abbreviation Url :: message where
  "Url \<equiv> Info ''URL:''"

abbreviation Downloaded :: message where
  "Downloaded \<equiv> Info ''Successfully downloaded CSV file''"

abbreviation SavedTo :: message where
  "SavedTo \<equiv> Info ''Saved to:''"

abbreviation FileSize :: message where
  "FileSize \<equiv> Info ''File size:''"

abbreviation TotalLines :: message where
  "TotalLines \<equiv> Info ''Total lines:''"

abbreviation NotPublic :: message where
  "NotPublic \<equiv> Info ''This might be because the sheet is not publicly accessible.''"

abbreviation PleaseShare :: message where
  "PleaseShare \<equiv> Info ''Please make sure the Google Sheet is shared with 'Anyone with the link' can view.''"

abbreviation UrlError :: message where
  "UrlError \<equiv> Info ''URL Error:''"

abbreviation CheckConnection :: message where
  "CheckConnection \<equiv> Info ''Please check your internet connection.''"

abbreviation DownloadError :: message where
  "DownloadError \<equiv> Info ''Error:''"

abbreviation CsvNotFound :: message where
  "CsvNotFound \<equiv> Info ''CSV file not found:''"

abbreviation Converting :: message where
  "Converting \<equiv> Info ''Converting CSV to JSON files...''"

abbreviation InputFile :: message where
  "InputFile \<equiv> Info ''Input:''"

abbreviation OutputFile :: message where
  "OutputFile \<equiv> Info ''Output:''"

abbreviation OutputDirectory :: message where
  "OutputDirectory \<equiv> Info ''Output directory:''"

abbreviation ErrorReading :: message where
  "ErrorReading \<equiv> Info ''Error reading CSV file:''"

abbreviation Rule :: message where
  "Rule \<equiv> Info ''============================================================''"

abbreviation Syncing :: message where
  "Syncing \<equiv> Info ''Syncing Google Sheets Data''"

abbreviation FailedDownload :: message where
  "FailedDownload \<equiv> Info ''Failed to download CSV. Aborting.''"

abbreviation CannotSkip :: message where
  "CannotSkip \<equiv> Info ''Cannot skip download when CSV file doesn't exist.''"

abbreviation SkippingDownload :: message where
  "SkippingDownload \<equiv> Info ''Skipping download, using existing CSV:''"

abbreviation FailedGenerate :: message where
  "FailedGenerate \<equiv> Info ''Failed to generate JSON files.''"

abbreviation Completed :: message where
  "Completed \<equiv> Info ''Sync completed successfully!''"

abbreviation Blank :: message where
  "Blank \<equiv> Info []"

section \<open>One row\<close>

text \<open>
  \<open>row.get(key, '').strip()\<close>. A column that the header does not have gives the
  default \<open>''\<close>; a column that the line is too short for gives \<open>None\<close>, and
  \<open>None.strip()\<close> raises \<open>AttributeError\<close>.
\<close>

definition get_strip :: "row \<Rightarrow> pystr \<Rightarrow> exn + pystr" where
  "get_strip r k = (case dict_get r k (Str []) of PyNone \<Rightarrow> Inl AttributeError
                                                | Str s \<Rightarrow> Inr (py_strip s))"

text \<open>The test of the \<open>if\<close> that opens the loop body: \<open>continue\<close> on an empty row.\<close>

definition empty_row :: "row \<Rightarrow> bool" where
  "empty_row r = (case dict_get r (u ''ID'') PyNone of PyNone \<Rightarrow> True
                                                    | Str s \<Rightarrow> s = [] \<or> py_strip s = [])"

record fields =
  gem_id :: pystr
  name :: pystr
  category :: pystr
  color_code :: pystr
  cut_f :: pystr
  carat :: pystr
  clarity :: pystr
  rarity :: pystr
  image_f :: pystr
  animation_url :: pystr

text \<open>Sequencing of statements that may raise: the first \<open>Inl\<close> is the exception raised.\<close>

definition and_then :: "exn + 'a \<Rightarrow> ('a \<Rightarrow> exn + 'b) \<Rightarrow> exn + 'b" where
  "and_then m k = (case m of Inl e \<Rightarrow> Inl e | Inr v \<Rightarrow> k v)"

text \<open>The ten assignments that open the \<open>try\<close> block.\<close>

definition extract_fields :: "row \<Rightarrow> exn + fields" where
  "extract_fields r =
     and_then (get_strip r (u ''ID'')) (\<lambda>gem_id'.
     and_then (get_strip r name_column) (\<lambda>name'.
     and_then (get_strip r (u ''Category'')) (\<lambda>category'.
     and_then (get_strip r (u ''Color'')) (\<lambda>color_code'.
     and_then (get_strip r (u ''Cut'')) (\<lambda>cut'.
     and_then (get_strip r (u ''Carat'')) (\<lambda>carat'.
     and_then (get_strip r (u ''Clarity'')) (\<lambda>clarity'.
     and_then (get_strip r (u ''Rarity'')) (\<lambda>rarity'.
     and_then (get_strip r (u ''image'')) (\<lambda>image'.
     and_then (get_strip r (u ''animation_url'')) (\<lambda>animation_url'.
     Inr \<lparr>gem_id = gem_id', name = name', category = category', color_code = color_code',
          cut_f = cut', carat = carat', clarity = clarity', rarity = rarity',
          image_f = image', animation_url = animation_url'\<rparr>))))))))))"

text \<open>\<open>color_name = category if category else color_code\<close>.\<close>

definition color_name :: "fields \<Rightarrow> pystr" where
  "color_name f = (if category f \<noteq> [] then category f else color_code f)"

text \<open>
  The rest of the \<open>try\<close> block up to the value that is written: the completeness check,
  the carat conversion, the description and the document. \<open>Inl\<close> is the message of a
  \<open>continue\<close>; \<open>Inr\<close> is the identifier with the document.
\<close>

definition build :: "fields \<Rightarrow> message + pystr \<times> json" where
  "build f =
     (if \<not> list_all (\<lambda>s. s \<noteq> [])
              [name f, color_name f, cut_f f, carat f, clarity f, rarity f, image_f f,
               animation_url f]
      then Inl (SkipMissingFields (gem_id f))
      else case py_int (carat f) of
             None \<Rightarrow> Inl (SkipInvalidCarat (gem_id f) (carat f))
           | Some carat_value \<Rightarrow>
               Inr (gem_id f,
                    json_data (name f) (generate_description (cut_f f) (color_name f))
                      (cut_f f) (color_name f) carat_value (clarity f) (rarity f) (image_f f)
                      (animation_url f)))"

text \<open>
  What the loop body decides for a row before it touches a file: \<open>Spacer\<close> for the
  silent \<open>continue\<close>, \<open>Skip\<close> with the message printed, \<open>Emit\<close> with the identifier
  and the document. No statement of the \<open>try\<close> block raises \<open>KeyError\<close>, so the handler
  that prints \<open>SkipMissingColumn\<close> has no branch here; \<open>AttributeError\<close> reaches the
  handler for \<open>Exception\<close>, which prints \<open>row.get('ID', 'unknown')\<close> unstripped.
\<close>

datatype outcome = Spacer | Skip message | Emit pystr json

definition row_outcome :: "row \<Rightarrow> outcome" where
  "row_outcome r =
     (if empty_row r then Spacer
      else case extract_fields r of
             Inl e \<Rightarrow> Skip (ErrorProcessing (dict_get r (u ''ID'') (Str (u ''unknown''))) e)
           | Inr f \<Rightarrow> (case build f of Inl m \<Rightarrow> Skip m | Inr (i, d) \<Rightarrow> Emit i d))"

section \<open>The loop over the rows\<close>

text \<open>
  The state the loop works on: its two counters, the files of the output directory and
  what has been printed. A file is kept as the value given to \<open>json.dump\<close>; the text
  written is a function of that value alone (\<open>indent=4, ensure_ascii=False\<close>), and
  opening with mode \<open>'w'\<close> replaces what the file held.

  \<open>can_open\<close> says for which file names \<open>open(output_dir / name, 'w')\<close> succeeds (an
  identifier may hold a path separator or a NUL). The script creates no directory below
  the output directory, so the answer does not change while it runs. A refused
  \<open>open\<close> raises inside the \<open>try\<close> block and is counted as a skipped row; a file
  that has been opened is taken to be written in full.
\<close>

record run =
  processed_count :: nat
  skipped_count :: nat
  files :: "pystr \<rightharpoonup> json"
  printed :: "message list"

definition say :: "message list \<Rightarrow> run \<Rightarrow> run" where
  "say ms s = s\<lparr>printed := printed s @ ms\<rparr>"

definition process_row :: "(pystr \<Rightarrow> bool) \<Rightarrow> row \<Rightarrow> run \<Rightarrow> run" where
  "process_row can_open r s =
     (case row_outcome r of
        Spacer \<Rightarrow> s
      | Skip m \<Rightarrow> say [m] (s\<lparr>skipped_count := skipped_count s + 1\<rparr>)
      | Emit i d \<Rightarrow>
          (let output_file = i @ u ''.json'' in
           if can_open output_file then
             (let s' = s\<lparr>files := (files s)(output_file \<mapsto> d),
                          processed_count := processed_count s + 1\<rparr>
              in if processed_count s' mod 50 = 0 then say [Processed (processed_count s')] s'
                 else s')
           else say [ErrorProcessing (dict_get r (u ''ID'') (Str (u ''unknown''))) OSError]
                  (s\<lparr>skipped_count := skipped_count s + 1\<rparr>)))"

fun process_rows :: "(pystr \<Rightarrow> bool) \<Rightarrow> row list \<Rightarrow> run \<Rightarrow> run" where
  "process_rows can_open [] s = s"
| "process_rows can_open (r # rs) s = process_rows can_open rs (process_row can_open r s)"

section \<open>The transform\<close>

text \<open>
  The file at the CSV path: \<open>Absent\<close>; \<open>Rows rs\<close>, read to its end as the rows
  \<open>rs\<close>; or \<open>Broken rs\<close>, where reading yields \<open>rs\<close> and then raises (the file
  cannot be opened, is not UTF-8 from some point on, or is refused by the \<open>csv\<close>
  reader). The output directory is \<open>None\<close> while it does not exist.
\<close>

datatype csv_file = Absent | Rows "row list" | Broken "row list"

record world =
  csv :: csv_file
  out_dir :: "(pystr \<rightharpoonup> json) option"
  stdout :: "message list"

text \<open>\<open>output_dir.mkdir(parents=True, exist_ok=True)\<close>, taken to succeed.\<close>

definition mkdir :: "(pystr \<rightharpoonup> json) option \<Rightarrow> (pystr \<rightharpoonup> json)" where
  "mkdir d = (case d of None \<Rightarrow> Map.empty | Some fs \<Rightarrow> fs)"

definition start :: "world \<Rightarrow> run" where
  "start w = \<lparr>processed_count = 0, skipped_count = 0, files = mkdir (out_dir w),
              printed = stdout w @ [Converting, InputFile, OutputFile,
                                    UsingColumns REQUIRED_COLUMNS]\<rparr>"

definition finish :: "world \<Rightarrow> run \<Rightarrow> world" where
  "finish w s = w\<lparr>out_dir := Some (files s), stdout := printed s\<rparr>"

definition summary :: "run \<Rightarrow> message list" where
  "summary s = [Generated (processed_count s)] @
               (if skipped_count s > 0 then [Skipped (skipped_count s)] else []) @
               [OutputDirectory]"

definition csv_to_json :: "(pystr \<Rightarrow> bool) \<Rightarrow> world \<Rightarrow> bool \<times> world" where
  "csv_to_json can_open w =
     (case csv w of
        Absent \<Rightarrow>
          (False, w\<lparr>out_dir := Some (mkdir (out_dir w)), stdout := stdout w @ [CsvNotFound]\<rparr>)
      | Rows rs \<Rightarrow>
          (let s = process_rows can_open rs (start w)
           in (True, finish w (say (summary s) s)))
      | Broken rs \<Rightarrow>
          (let s = process_rows can_open rs (start w)
           in (False, finish w (say [ErrorReading] s))))"

section \<open>The fetch and the orchestrator\<close>

text \<open>
  What \<open>urlopen\<close> and the write of the CSV file come to: one of the three handlers, or
  a body that has been written to the CSV path. \<open>Body f decodes\<close> is a body that makes
  the file \<open>f\<close>; \<open>decodes\<close> says whether counting its lines as UTF-8 succeeds (the
  count raises otherwise, after the file has been written).
\<close>

datatype response = HTTPError nat | URLError | OtherError | Body csv_file bool

definition download_csv :: "response \<Rightarrow> world \<Rightarrow> bool \<times> world" where
  "download_csv resp w =
     (let w0 = w\<lparr>stdout := stdout w @ [Downloading, Url]\<rparr> in
      case resp of
        HTTPError code \<Rightarrow>
          (False, w0\<lparr>stdout := stdout w0 @ [HttpError code] @
                                 (if code = 403 then [NotPublic, PleaseShare] else [])\<rparr>)
      | URLError \<Rightarrow> (False, w0\<lparr>stdout := stdout w0 @ [UrlError, CheckConnection]\<rparr>)
      | OtherError \<Rightarrow> (False, w0\<lparr>stdout := stdout w0 @ [DownloadError]\<rparr>)
      | Body f decodes \<Rightarrow>
          (let w1 = w0\<lparr>csv := f, stdout := stdout w0 @ [Downloaded, SavedTo, FileSize]\<rparr>
           in if decodes then (True, w1\<lparr>stdout := stdout w1 @ [TotalLines]\<rparr>)
              else (False, w1\<lparr>stdout := stdout w1 @ [DownloadError]\<rparr>)))"

definition exists :: "csv_file \<Rightarrow> bool" where
  "exists f \<longleftrightarrow> f \<noteq> Absent"

definition convert_step :: "(pystr \<Rightarrow> bool) \<Rightarrow> world \<Rightarrow> bool \<times> world" where
  "convert_step can_open w =
     (case csv_to_json can_open w of (success, w') \<Rightarrow>
        if \<not> success then (False, w'\<lparr>stdout := stdout w' @ [FailedGenerate]\<rparr>)
        else (True, w'\<lparr>stdout := stdout w' @ [Blank, Rule, Completed, Rule]\<rparr>))"

definition sync_google_sheet ::
  "response \<Rightarrow> (pystr \<Rightarrow> bool) \<Rightarrow> bool \<Rightarrow> world \<Rightarrow> bool \<times> world" where
  "sync_google_sheet resp can_open skip_download w =
     (let w0 = w\<lparr>stdout := stdout w @ [Rule, Syncing, Rule, Blank]\<rparr> in
      if \<not> skip_download then
        (case download_csv resp w0 of (success, w1) \<Rightarrow>
           if \<not> success then (False, w1\<lparr>stdout := stdout w1 @ [FailedDownload]\<rparr>)
           else convert_step can_open w1)
      else if \<not> exists (csv w0)
        then (False, w0\<lparr>stdout := stdout w0 @ [CsvNotFound, CannotSkip]\<rparr>)
        else convert_step can_open (w0\<lparr>stdout := stdout w0 @ [SkippingDownload]\<rparr>))"

text \<open>\<open>main\<close> after the arguments are parsed: the exit status of the process.\<close>

definition main :: "response \<Rightarrow> (pystr \<Rightarrow> bool) \<Rightarrow> bool \<Rightarrow> world \<Rightarrow> nat \<times> world" where
  "main resp can_open skip_download w =
     (case sync_google_sheet resp can_open skip_download w of
        (success, w') \<Rightarrow> (if success then 0 else 1, w'))"

section \<open>Example data\<close>

text \<open>A run that has not started, and lines of a table whose header is \<open>REQUIRED_COLUMNS\<close>.\<close>

definition no_files :: run where
  "no_files = \<lparr>processed_count = 0, skipped_count = 0, files = Map.empty, printed = []\<rparr>"

definition spacer_line :: "pystr list" where
  "spacer_line = [u ''  '', u ''Red One'', u ''Ruby'', u ''#FF0000'', u ''Brilliant'', u ''3'',
                  u ''VS1'', u ''Rare'', u ''ipfs://image'', u ''ipfs://animation'']"

text \<open>
  A line of a table whose header is \<open>REQUIRED_COLUMNS\<close>, with the category, the cut
  and the carat left open and with white space around the other values; the row
  \<open>DictReader\<close> makes of it; and the document the script writes for it, spelled out.
\<close>

definition gem_line :: "pystr \<Rightarrow> pystr \<Rightarrow> pystr \<Rightarrow> pystr list" where
  "gem_line category' cut' carat' =
     [u '' 7 '', u ''Red One '', category', u '' #FF0000'', cut', carat', u '' VS1'', u ''Rare  '',
      u '' ipfs://image '', u ''ipfs://animation '']"

definition gem_row :: "pystr \<Rightarrow> pystr \<Rightarrow> pystr \<Rightarrow> row" where
  "gem_row category' cut' carat' = dict_row REQUIRED_COLUMNS (gem_line category' cut' carat')"

definition gem_document :: "pystr \<Rightarrow> pystr \<Rightarrow> pystr \<Rightarrow> int \<Rightarrow> json" where
  "gem_document description' cut' color carat_value =
     JObj [(u ''name'', JStr (u ''Red One'')),
           (u ''description'', JStr description'),
           (u ''attributes'',
              JList [JObj [(u ''trait_type'', JStr (u ''Cut'')), (u ''value'', JStr cut')],
                     JObj [(u ''trait_type'', JStr (u ''Color'')), (u ''value'', JStr color)],
                     JObj [(u ''trait_type'', JStr (u ''Carat'')), (u ''value'', JInt carat_value)],
                     JObj [(u ''trait_type'', JStr (u ''Clarity'')), (u ''value'', JStr (u ''VS1''))],
                     JObj [(u ''trait_type'', JStr (u ''Rarity'')), (u ''value'', JStr (u ''Rare''))]]),
           (u ''image'', JStr (u ''ipfs://image'')),
           (u ''animation_url'', JStr (u ''ipfs://animation''))]"

text \<open>
  Two tables whose header lacks a column: one without \<open>Category\<close>, one without
  \<open>Cut\<close>; and the row of the one data line of each.
\<close>

definition no_category_header :: "pystr list" where
  "no_category_header =
     [u ''ID'', name_column, u ''Color'', u ''Cut'', u ''Carat'', u ''Clarity'', u ''Rarity'',
      u ''image'', u ''animation_url'']"

definition no_category_row :: row where
  "no_category_row =
     dict_row no_category_header
       [u ''7'', u ''Red One'', u ''#FF0000'', u ''Brilliant'', u ''3'', u ''VS1'', u ''Rare'',
        u ''ipfs://image'', u ''ipfs://animation'']"

definition no_cut_header :: "pystr list" where
  "no_cut_header =
     [u ''ID'', name_column, u ''Category'', u ''Color'', u ''Carat'', u ''Clarity'', u ''Rarity'',
      u ''image'', u ''animation_url'']"

definition no_cut_row :: row where
  "no_cut_row =
     dict_row no_cut_header
       [u ''7'', u ''Red One'', u ''Ruby'', u ''#FF0000'', u ''3'', u ''VS1'', u ''Rare'',
        u ''ipfs://image'', u ''ipfs://animation'']"

text \<open>
  A table of three rows, of which the first is complete, the second has a blank cut and
  the third a carat that is no number; the worlds in which the CSV path holds that table,
  a table of one complete row, and nothing.
\<close>

definition mixed_table :: "row list" where
  "mixed_table =
     [gem_row (u ''Ruby'') (u ''Brilliant'') (u ''3''),
      gem_row (u ''Ruby'') [] (u ''3''),
      gem_row (u ''Ruby'') (u ''Brilliant'') (u ''three'')]"

definition mixed_world :: world where
  "mixed_world = \<lparr>csv = Rows mixed_table, out_dir = None, stdout = []\<rparr>"

definition good_world :: world where
  "good_world =
     \<lparr>csv = Rows [gem_row (u ''Ruby'') (u ''Brilliant'') (u ''3'')], out_dir = None, stdout = []\<rparr>"

definition empty_world :: world where
  "empty_world = \<lparr>csv = Absent, out_dir = None, stdout = []\<rparr>"

section \<open>Facts about the built-ins\<close>

lemma u_eq_iff: "u a = u b \<longleftrightarrow> a = b"
proof
  assume "u a = u b"
  then have "map char_of (u a) = map char_of (u b)" by simp
  then show "a = b" by (simp add: u_def comp_def)
qed simp

lemma name_column_neq_u: "name_column \<noteq> u s"
proof
  assume "name_column = u s"
  then have "0x540D \<in> set (u s)" by (simp add: name_column_def flip: \<open>name_column = u s\<close>)
  then obtain c :: char where "(of_char c :: nat) = 0x540D" by (auto simp: u_def)
  moreover have "(of_char c :: nat) < 256" by simp
  ultimately show False by simp
qed


lemma py_strip_Nil: "py_strip [] = []"
  by (simp add: py_strip_def)



lemmas key_simps = u_eq_iff name_column_neq_u name_column_neq_u [symmetric]

lemmas str_simps = u_def py_strip_def py_isspace_def


lemma decimal_zero_ascii:
  "c < 0x80 \<Longrightarrow> decimal_zero c = (if 0x30 \<le> c \<and> c \<le> 0x39 then Some 0x30 else None)"
  by (simp add: decimal_zero_def decimal_zeros_def)

lemma is_digit_ascii: "c < 0x80 \<Longrightarrow> is_digit c \<longleftrightarrow> 0x30 \<le> c \<and> c \<le> 0x39"
  by (simp add: is_digit_def decimal_zero_ascii)

lemma digit_value_ascii: "0x30 \<le> c \<Longrightarrow> c \<le> 0x39 \<Longrightarrow> digit_value c = int (c - 0x30)"
  by (simp add: digit_value_def decimal_zero_ascii)

lemmas int_simps = u_def is_digit_ascii digit_value_ascii within_limit_def max_str_digits_def

lemma py_int_3: "py_int (u ''3'') = Some 3"
  by (simp add: int_simps)

lemma py_int_lenient:
  "py_int (u ''+3'') = Some 3" "py_int (u ''-3'') = Some (- 3)" "py_int (u ''1_0'') = Some 10"
  by (simp_all add: int_simps)

lemma literals:
  "u ''7'' \<noteq> []" "u ''Red One'' \<noteq> []" "u ''#FF0000'' \<noteq> []" "u ''VS1'' \<noteq> []" "u ''Rare'' \<noteq> []"
  "u ''ipfs://image'' \<noteq> []" "u ''ipfs://animation'' \<noteq> []"
  by (simp_all add: u_def)

lemma stripped_literals:
  "py_strip (u ''Ruby'') = u ''Ruby''" "py_strip (u ''Brilliant'') = u ''Brilliant''"
  "py_strip (u ''Princess'') = u ''Princess''" "py_strip (u ''Emerald'') = u ''Emerald''"
  "py_strip [] = []" "py_strip (u ''3'') = u ''3''" "py_strip (u ''+3'') = u ''+3''"
  "py_strip (u ''-3'') = u ''-3''" "py_strip (u ''1_0'') = u ''1_0''"
  "py_strip (u ''3.5'') = u ''3.5''" "py_strip (u ''three'') = u ''three''"
  by (simp_all add: str_simps)

lemma padded_literals:
  "py_strip (u '' Ruby  '') = u ''Ruby''" "py_strip (u ''  '') = []"
  "py_strip (u '' Brilliant '') = u ''Brilliant''" "py_strip (u ''Princess '') = u ''Princess''"
  "py_strip (u '' Emerald'') = u ''Emerald''" "py_strip (u '' 3 '') = u ''3''"
  "py_strip (u '' 3.5 '') = u ''3.5''" "py_strip (u '' three'') = u ''three''"
  "py_strip (u '' +3 '') = u ''+3''" "py_strip (u ''-3 '') = u ''-3''"
  "py_strip (u '' 1_0'') = u ''1_0''"
  by (simp_all add: str_simps)

lemma nonblank_literals:
  "u ''Ruby'' \<noteq> []" "u ''Brilliant'' \<noteq> []" "u ''Princess'' \<noteq> []" "u ''Emerald'' \<noteq> []"
  "u ''3'' \<noteq> []" "u ''3.5'' \<noteq> []" "u ''three'' \<noteq> []"
  by (simp_all add: u_def)

section \<open>Facts about one row\<close>

lemma get_strip_cases:
  "get_strip r k = (case r k of None \<Rightarrow> Inr [] | Some PyNone \<Rightarrow> Inl AttributeError
                              | Some (Str s) \<Rightarrow> Inr (py_strip s))"
  by (simp add: get_strip_def dict_get_def py_strip_Nil split: option.splits cell.splits)

lemma get_strip_Inl: "get_strip r k = Inl e \<Longrightarrow> e = AttributeError \<and> r k = Some PyNone"
  by (auto simp: get_strip_cases split: option.splits cell.splits)


lemma and_then_Inr: "and_then m k = Inr y \<longleftrightarrow> (\<exists>v. m = Inr v \<and> k v = Inr y)"
  by (cases m) (simp_all add: and_then_def)

lemma and_then_Inl: "and_then m k = Inl e \<longleftrightarrow> m = Inl e \<or> (\<exists>v. m = Inr v \<and> k v = Inl e)"
  by (cases m) (simp_all add: and_then_def)

lemma extract_fields_Inr:
  "extract_fields r = Inr f \<longleftrightarrow>
     get_strip r (u ''ID'') = Inr (gem_id f) \<and>
     get_strip r name_column = Inr (name f) \<and>
     get_strip r (u ''Category'') = Inr (category f) \<and>
     get_strip r (u ''Color'') = Inr (color_code f) \<and>
     get_strip r (u ''Cut'') = Inr (cut_f f) \<and>
     get_strip r (u ''Carat'') = Inr (carat f) \<and>
     get_strip r (u ''Clarity'') = Inr (clarity f) \<and>
     get_strip r (u ''Rarity'') = Inr (rarity f) \<and>
     get_strip r (u ''image'') = Inr (image_f f) \<and>
     get_strip r (u ''animation_url'') = Inr (animation_url f)"
  unfolding extract_fields_def and_then_Inr
  by (cases f) auto

lemma extract_fields_raises: "extract_fields r = Inl e \<Longrightarrow> e = AttributeError"
  unfolding extract_fields_def and_then_Inl
  by (auto dest: get_strip_Inl)

lemma extract_fields_no_None:
  assumes "extract_fields r = Inr f" and "k \<in> set REQUIRED_COLUMNS"
  shows "r k \<noteq> Some PyNone"
proof
  assume "r k = Some PyNone"
  then have "get_strip r k = Inl AttributeError" by (simp add: get_strip_cases)
  moreover have "\<exists>v. get_strip r k = Inr v"
    using assms unfolding extract_fields_Inr REQUIRED_COLUMNS_def by auto
  ultimately show False by auto
qed

lemma extract_fields_None:
  assumes "k \<in> set REQUIRED_COLUMNS" and "r k = Some PyNone"
  shows "extract_fields r = Inl AttributeError"
proof (cases "extract_fields r")
  case (Inl e)
  then show ?thesis using extract_fields_raises by blast
next
  case (Inr f)
  then show ?thesis using extract_fields_no_None assms by blast
qed

lemma dict_row_full:
  "dict_row REQUIRED_COLUMNS [a0, a1, a2, a3, a4, a5, a6, a7, a8, a9] =
     [u ''ID'' \<mapsto> Str a0, name_column \<mapsto> Str a1, u ''Category'' \<mapsto> Str a2,
      u ''Color'' \<mapsto> Str a3, u ''Cut'' \<mapsto> Str a4, u ''Carat'' \<mapsto> Str a5,
      u ''Clarity'' \<mapsto> Str a6, u ''Rarity'' \<mapsto> Str a7, u ''image'' \<mapsto> Str a8,
      u ''animation_url'' \<mapsto> Str a9]"
  by (simp add: dict_row_def REQUIRED_COLUMNS_def)

lemma get_strip_upd:
  "get_strip (r(k \<mapsto> c)) k' = (if k' = k then (case c of PyNone \<Rightarrow> Inl AttributeError | Str s \<Rightarrow> Inr (py_strip s)) else get_strip r k')"
  by (simp add: get_strip_cases)

lemma get_strip_empty: "get_strip Map.empty k = Inr []"
  by (simp add: get_strip_cases)

lemma extract_fields_full:
  "extract_fields (dict_row REQUIRED_COLUMNS [a0, a1, a2, a3, a4, a5, a6, a7, a8, a9]) =
     Inr \<lparr>gem_id = py_strip a0, name = py_strip a1, category = py_strip a2,
          color_code = py_strip a3, cut_f = py_strip a4, carat = py_strip a5,
          clarity = py_strip a6, rarity = py_strip a7, image_f = py_strip a8,
          animation_url = py_strip a9\<rparr>"
  unfolding extract_fields_Inr dict_row_full
  by (simp add: get_strip_upd get_strip_empty key_simps)

lemma empty_row_iff:
  "empty_row r \<longleftrightarrow> (case r (u ''ID'') of None \<Rightarrow> True | Some PyNone \<Rightarrow> True
                                          | Some (Str s) \<Rightarrow> py_strip s = [])"
  by (auto simp: empty_row_def dict_get_def py_strip_Nil split: option.splits cell.splits)

lemma process_row_Spacer: "row_outcome r = Spacer \<Longrightarrow> process_row can_open r s = s"
  by (simp add: process_row_def)

lemma process_row_Skip:
  "row_outcome r = Skip m \<Longrightarrow>
   process_row can_open r s = s\<lparr>skipped_count := skipped_count s + 1, printed := printed s @ [m]\<rparr>"
  by (simp add: process_row_def say_def)

lemma process_rows_append:
  "process_rows can_open (rs @ rs') s = process_rows can_open rs' (process_rows can_open rs s)"
  by (induction rs arbitrary: s) simp_all

lemma build_Inr:
  "build f = Inr (i, d) \<longleftrightarrow>
     name f \<noteq> [] \<and> color_name f \<noteq> [] \<and> cut_f f \<noteq> [] \<and> carat f \<noteq> [] \<and> clarity f \<noteq> [] \<and>
     rarity f \<noteq> [] \<and> image_f f \<noteq> [] \<and> animation_url f \<noteq> [] \<and>
     (\<exists>k. py_int (carat f) = Some k \<and> i = gem_id f \<and>
          d = json_data (name f) (generate_description (cut_f f) (color_name f)) (cut_f f)
                (color_name f) k (clarity f) (rarity f) (image_f f) (animation_url f))"
  by (auto simp: build_def split: option.splits)

lemma build_incomplete:
  "name f = [] \<or> color_name f = [] \<or> cut_f f = [] \<or> carat f = [] \<or> clarity f = [] \<or>
   rarity f = [] \<or> image_f f = [] \<or> animation_url f = [] \<Longrightarrow>
   build f = Inl (SkipMissingFields (gem_id f))"
  by (auto simp: build_def)

lemma build_invalid_carat:
  "name f \<noteq> [] \<Longrightarrow> color_name f \<noteq> [] \<Longrightarrow> cut_f f \<noteq> [] \<Longrightarrow> carat f \<noteq> [] \<Longrightarrow>
   clarity f \<noteq> [] \<Longrightarrow> rarity f \<noteq> [] \<Longrightarrow> image_f f \<noteq> [] \<Longrightarrow> animation_url f \<noteq> [] \<Longrightarrow>
   py_int (carat f) = None \<Longrightarrow> build f = Inl (SkipInvalidCarat (gem_id f) (carat f))"
  by (simp add: build_def)

lemma row_outcome_Emit:
  "row_outcome r = Emit i d \<longleftrightarrow>
     \<not> empty_row r \<and> (\<exists>f. extract_fields r = Inr f \<and> build f = Inr (i, d))"
  by (auto simp: row_outcome_def split: sum.splits)

lemma row_outcome_fields:
  "\<not> empty_row r \<Longrightarrow> extract_fields r = Inr f \<Longrightarrow>
   row_outcome r = (case build f of Inl m \<Rightarrow> Skip m | Inr (i, d) \<Rightarrow> Emit i d)"
  by (simp add: row_outcome_def)

lemma process_row_Emit:
  "row_outcome r = Emit i d \<Longrightarrow> can_open (i @ u ''.json'') \<Longrightarrow>
   process_row can_open r s =
     (let s' = s\<lparr>files := (files s)(i @ u ''.json'' \<mapsto> d),
                  processed_count := processed_count s + 1\<rparr>
      in if processed_count s' mod 50 = 0 then say [Processed (processed_count s')] s' else s')"
  by (simp add: process_row_def)

lemma process_row_writes:
  assumes "row_outcome r = Emit i d" and "can_open (i @ u ''.json'')"
  shows "files (process_row can_open r st) = (files st)(i @ u ''.json'' \<mapsto> d)"
    and "processed_count (process_row can_open r st) = processed_count st + 1"
    and "skipped_count (process_row can_open r st) = skipped_count st"
  using assms by (simp_all add: process_row_def say_def Let_def)

lemma row_emits:
  assumes "\<not> empty_row r" and "extract_fields r = Inr f"
    and "name f \<noteq> []" and "color_name f \<noteq> []" and "cut_f f \<noteq> []" and "carat f \<noteq> []"
    and "clarity f \<noteq> []" and "rarity f \<noteq> []" and "image_f f \<noteq> []" and "animation_url f \<noteq> []"
    and "py_int (carat f) = Some k"
  shows "row_outcome r =
           Emit (gem_id f)
             (json_data (name f) (generate_description (cut_f f) (color_name f)) (cut_f f)
                (color_name f) k (clarity f) (rarity f) (image_f f) (animation_url f))"
proof -
  have "build f = Inr (gem_id f,
           json_data (name f) (generate_description (cut_f f) (color_name f)) (cut_f f)
                (color_name f) k (clarity f) (rarity f) (image_f f) (animation_url f))"
    using assms(3-) by (simp add: build_Inr)
  then show ?thesis using assms(1,2) by (simp add: row_outcome_fields)
qed

lemma row_invalid_carat:
  assumes "\<not> empty_row r" and "extract_fields r = Inr f"
    and "name f \<noteq> []" and "color_name f \<noteq> []" and "cut_f f \<noteq> []" and "carat f \<noteq> []"
    and "clarity f \<noteq> []" and "rarity f \<noteq> []" and "image_f f \<noteq> []" and "animation_url f \<noteq> []"
    and "py_int (carat f) = None"
  shows "row_outcome r = Skip (SkipInvalidCarat (gem_id f) (carat f))"
  using assms by (simp add: row_outcome_fields build_invalid_carat)


lemma descriptions:
  "generate_description (u ''Brilliant'') (u ''Ruby'') =
     u ''A unique RoundBrilliant cut gemstone in Ruby color.''"
  "generate_description (u ''Brilliant'') (u ''#FF0000'') =
     u ''A unique RoundBrilliant cut gemstone in #FF0000 color.''"
  "generate_description (u ''Princess'') (u ''Emerald'') =
     u ''A unique Princess cut gemstone in Emerald color.''"
  by (simp_all add: generate_description_def u_def)

lemma in_set_tl: "x \<in> set (tl xs) \<Longrightarrow> x \<in> set xs"
  by (cases xs) simp_all

lemma absent_column_blank:
  assumes "extract_fields r = Inr f"
  shows "r name_column = None \<Longrightarrow> name f = []"
    and "r (u ''Category'') = None \<Longrightarrow> category f = []"
    and "r (u ''Color'') = None \<Longrightarrow> color_code f = []"
    and "r (u ''Cut'') = None \<Longrightarrow> cut_f f = []"
    and "r (u ''Carat'') = None \<Longrightarrow> carat f = []"
    and "r (u ''Clarity'') = None \<Longrightarrow> clarity f = []"
    and "r (u ''Rarity'') = None \<Longrightarrow> rarity f = []"
    and "r (u ''image'') = None \<Longrightarrow> image_f f = []"
    and "r (u ''animation_url'') = None \<Longrightarrow> animation_url f = []"
  using assms unfolding extract_fields_Inr by (simp_all add: get_strip_cases)

section \<open>The example rows\<close>

lemma gem_document_json_data:
  "json_data (u ''Red One'') ds ct c k (u ''VS1'') (u ''Rare'') (u ''ipfs://image'')
     (u ''ipfs://animation'') = gem_document ds ct c k"
  by (simp add: gem_document_def json_data_def trait_def)

lemma gem_row_fields:
  "extract_fields (gem_row a b c) =
     Inr \<lparr>gem_id = u ''7'', name = u ''Red One'', category = py_strip a,
          color_code = u ''#FF0000'', cut_f = py_strip b, carat = py_strip c,
          clarity = u ''VS1'', rarity = u ''Rare'', image_f = u ''ipfs://image'',
          animation_url = u ''ipfs://animation''\<rparr>"
proof -
  have "py_strip (u '' 7 '') = u ''7''" "py_strip (u ''Red One '') = u ''Red One''"
    "py_strip (u '' #FF0000'') = u ''#FF0000''" "py_strip (u '' VS1'') = u ''VS1''"
    "py_strip (u ''Rare  '') = u ''Rare''" "py_strip (u '' ipfs://image '') = u ''ipfs://image''"
    "py_strip (u ''ipfs://animation '') = u ''ipfs://animation''"
    by (simp_all add: str_simps)
  then show ?thesis by (simp add: gem_row_def gem_line_def extract_fields_full)
qed

lemma gem_row_not_empty: "\<not> empty_row (gem_row a b c)"
proof -
  have "gem_row a b c (u ''ID'') = Some (Str (u '' 7 ''))"
    by (simp add: gem_row_def gem_line_def dict_row_full key_simps)
  moreover have "py_strip (u '' 7 '') \<noteq> []" by (simp add: str_simps)
  ultimately show ?thesis by (simp add: empty_row_iff)
qed

lemma gem_row_outcome:
  assumes "py_strip b \<noteq> []" and "py_int (py_strip c) = Some k"
  shows "row_outcome (gem_row a b c) =
           Emit (u ''7'')
             (gem_document
                (generate_description (py_strip b)
                   (if py_strip a \<noteq> [] then py_strip a else u ''#FF0000''))
                (py_strip b) (if py_strip a \<noteq> [] then py_strip a else u ''#FF0000'') k)"
proof -
  have "py_strip c \<noteq> []" using assms(2) by auto
  with assms show ?thesis
    using row_emits [OF gem_row_not_empty gem_row_fields, of a b c k]
    by (simp add: color_name_def literals gem_document_json_data)
qed

lemma gem_rows:
  "row_outcome (gem_row (u ''Ruby'') (u ''Brilliant'') (u ''3'')) =
     Emit (u ''7'')
       (gem_document (u ''A unique RoundBrilliant cut gemstone in Ruby color.'')
          (u ''Brilliant'') (u ''Ruby'') 3)"
  "row_outcome (gem_row [] (u ''Brilliant'') (u ''3'')) =
     Emit (u ''7'')
       (gem_document (u ''A unique RoundBrilliant cut gemstone in #FF0000 color.'')
          (u ''Brilliant'') (u ''#FF0000'') 3)"
  "row_outcome (gem_row (u ''Emerald'') (u ''Princess'') (u ''3'')) =
     Emit (u ''7'')
       (gem_document (u ''A unique Princess cut gemstone in Emerald color.'')
          (u ''Princess'') (u ''Emerald'') 3)"
  by (simp_all add: gem_row_outcome stripped_literals nonblank_literals descriptions py_int_3)

lemma padded_gem_rows:
  "row_outcome (gem_row (u '' Ruby  '') (u '' Brilliant '') (u '' 3 '')) =
     Emit (u ''7'')
       (gem_document (u ''A unique RoundBrilliant cut gemstone in Ruby color.'')
          (u ''Brilliant'') (u ''Ruby'') 3)"
  "row_outcome (gem_row (u ''  '') (u '' Brilliant '') (u '' 3 '')) =
     Emit (u ''7'')
       (gem_document (u ''A unique RoundBrilliant cut gemstone in #FF0000 color.'')
          (u ''Brilliant'') (u ''#FF0000'') 3)"
  "row_outcome (gem_row (u '' Emerald'') (u ''Princess '') (u '' 3 '')) =
     Emit (u ''7'')
       (gem_document (u ''A unique Princess cut gemstone in Emerald color.'')
          (u ''Princess'') (u ''Emerald'') 3)"
  by (simp_all add: gem_row_outcome padded_literals nonblank_literals descriptions py_int_3)

lemma no_category_row_eq:
  "no_category_row =
     [u ''ID'' \<mapsto> Str (u ''7''), name_column \<mapsto> Str (u ''Red One''),
      u ''Color'' \<mapsto> Str (u ''#FF0000''), u ''Cut'' \<mapsto> Str (u ''Brilliant''),
      u ''Carat'' \<mapsto> Str (u ''3''), u ''Clarity'' \<mapsto> Str (u ''VS1''),
      u ''Rarity'' \<mapsto> Str (u ''Rare''), u ''image'' \<mapsto> Str (u ''ipfs://image''),
      u ''animation_url'' \<mapsto> Str (u ''ipfs://animation'')]"
  by (simp add: no_category_row_def no_category_header_def dict_row_def)

lemma no_cut_row_eq:
  "no_cut_row =
     [u ''ID'' \<mapsto> Str (u ''7''), name_column \<mapsto> Str (u ''Red One''),
      u ''Category'' \<mapsto> Str (u ''Ruby''),
      u ''Color'' \<mapsto> Str (u ''#FF0000''),
      u ''Carat'' \<mapsto> Str (u ''3''), u ''Clarity'' \<mapsto> Str (u ''VS1''),
      u ''Rarity'' \<mapsto> Str (u ''Rare''), u ''image'' \<mapsto> Str (u ''ipfs://image''),
      u ''animation_url'' \<mapsto> Str (u ''ipfs://animation'')]"
  by (simp add: no_cut_row_def no_cut_header_def dict_row_def)

lemma no_category_row_fields:
  "extract_fields no_category_row =
     Inr \<lparr>gem_id = u ''7'', name = u ''Red One'', category = [],
          color_code = u ''#FF0000'', cut_f = u ''Brilliant'', carat = u ''3'',
          clarity = u ''VS1'', rarity = u ''Rare'', image_f = u ''ipfs://image'',
          animation_url = u ''ipfs://animation''\<rparr>"
proof -
  have "py_strip (u ''7'') = u ''7''" "py_strip (u ''Red One'') = u ''Red One''"
    "py_strip (u ''#FF0000'') = u ''#FF0000''" "py_strip (u ''VS1'') = u ''VS1''"
    "py_strip (u ''Rare'') = u ''Rare''" "py_strip (u ''ipfs://image'') = u ''ipfs://image''"
    "py_strip (u ''ipfs://animation'') = u ''ipfs://animation''"
    by (simp_all add: str_simps)
  then show ?thesis
    unfolding extract_fields_Inr no_category_row_eq
    by (simp add: get_strip_upd get_strip_empty key_simps stripped_literals)
qed

lemma no_cut_row_fields:
  "extract_fields no_cut_row =
     Inr \<lparr>gem_id = u ''7'', name = u ''Red One'', category = u ''Ruby'',
          color_code = u ''#FF0000'', cut_f = [], carat = u ''3'',
          clarity = u ''VS1'', rarity = u ''Rare'', image_f = u ''ipfs://image'',
          animation_url = u ''ipfs://animation''\<rparr>"
proof -
  have "py_strip (u ''7'') = u ''7''" "py_strip (u ''Red One'') = u ''Red One''"
    "py_strip (u ''#FF0000'') = u ''#FF0000''" "py_strip (u ''VS1'') = u ''VS1''"
    "py_strip (u ''Rare'') = u ''Rare''" "py_strip (u ''ipfs://image'') = u ''ipfs://image''"
    "py_strip (u ''ipfs://animation'') = u ''ipfs://animation''"
    by (simp_all add: str_simps)
  then show ?thesis
    unfolding extract_fields_Inr no_cut_row_eq
    by (simp add: get_strip_upd get_strip_empty key_simps stripped_literals)
qed

lemma example_rows_not_empty: "\<not> empty_row no_category_row" "\<not> empty_row no_cut_row"
proof -
  have "py_strip (u ''7'') \<noteq> []" by (simp add: str_simps)
  then show "\<not> empty_row no_category_row" "\<not> empty_row no_cut_row"
    by (simp_all add: empty_row_iff no_category_row_eq no_cut_row_eq key_simps)
qed

lemma json_name: "u ''7'' @ u ''.json'' = u ''7.json''"
  by (simp add: u_def)

section \<open>Facts about the loop and the transform\<close>

lemma process_row_counts:
  "processed_count (process_row can_open r s) =
     processed_count s + processed_count (process_row can_open r no_files)"
  "skipped_count (process_row can_open r s) =
     skipped_count s + skipped_count (process_row can_open r no_files)"
  by (simp_all add: process_row_def say_def Let_def no_files_def split: outcome.splits)

lemma process_rows_processed:
  "processed_count (process_rows can_open rs s) =
     processed_count s + (\<Sum>r\<leftarrow>rs. processed_count (process_row can_open r no_files))"
proof (induction rs arbitrary: s)
  case Nil
  show ?case by simp
next
  case (Cons r rs)
  show ?case using Cons.IH [of "process_row can_open r s"]
    by (simp add: process_row_counts(1) [of can_open r s])
qed

lemma process_rows_skipped:
  "skipped_count (process_rows can_open rs s) =
     skipped_count s + (\<Sum>r\<leftarrow>rs. skipped_count (process_row can_open r no_files))"
proof (induction rs arbitrary: s)
  case Nil
  show ?case by simp
next
  case (Cons r rs)
  show ?case using Cons.IH [of "process_row can_open r s"]
    by (simp add: process_row_counts(2) [of can_open r s])
qed

lemma start_counts: "processed_count (start w) = 0" "skipped_count (start w) = 0"
  by (simp_all add: start_def)

lemma written_files_are_emitted:
  "files (process_rows can_open rs s) k = Some d \<Longrightarrow>
   files s k = Some d \<or> (\<exists>r \<in> set rs. \<exists>i. row_outcome r = Emit i d \<and> k = i @ u ''.json'')"
proof (induction rs arbitrary: s)
  case Nil
  then show ?case by simp
next
  case (Cons r rs)
  from Cons.IH [OF Cons.prems [simplified]]
  consider "files (process_row can_open r s) k = Some d"
    | "\<exists>r \<in> set rs. \<exists>i. row_outcome r = Emit i d \<and> k = i @ u ''.json''"
    by blast
  then show ?case
  proof cases
    case 1
    then have "files s k = Some d \<or> (\<exists>i. row_outcome r = Emit i d \<and> k = i @ u ''.json'')"
      by (auto simp: process_row_def say_def Let_def split: outcome.splits if_splits)
    then show ?thesis by auto
  next
    case 2
    then show ?thesis by auto
  qed
qed

lemma files_process_row:
  "files (process_row can_open r s) = files s ++ files (process_row can_open r no_files)"
  by (simp add: process_row_def say_def Let_def no_files_def split: outcome.splits)

lemma files_process_rows:
  "files (process_rows can_open rs s) = files s ++ files (process_rows can_open rs no_files)"
proof (induction rs arbitrary: s)
  case Nil
  show ?case by (simp add: no_files_def)
next
  case (Cons r rs)
  have "files (process_rows can_open (r # rs) s) =
          (files s ++ files (process_row can_open r no_files)) ++
          files (process_rows can_open rs no_files)"
    using Cons.IH [of "process_row can_open r s"] by (simp add: files_process_row [of _ _ s])
  moreover have "files (process_rows can_open (r # rs) no_files) =
          files (process_row can_open r no_files) ++ files (process_rows can_open rs no_files)"
    using Cons.IH [of "process_row can_open r no_files"] by simp
  ultimately show ?case by simp
qed

lemma map_add_twice: "(m ++ f) ++ f = m ++ f"
  by (rule ext) (simp add: map_add_def split: option.splits)

lemma files_start: "files (start w) = mkdir (out_dir w)"
  by (simp add: start_def)

lemma out_dir_csv_to_json:
  "out_dir (snd (csv_to_json can_open w)) =
     Some (case csv w of
             Absent \<Rightarrow> mkdir (out_dir w)
           | Rows rs \<Rightarrow> mkdir (out_dir w) ++ files (process_rows can_open rs no_files)
           | Broken rs \<Rightarrow> mkdir (out_dir w) ++ files (process_rows can_open rs no_files))"
  by (cases "csv w")
    (simp_all add: csv_to_json_def Let_def finish_def say_def files_start
      files_process_rows [of _ _ "start w"])

lemma csv_csv_to_json: "csv (snd (csv_to_json can_open w)) = csv w"
  by (cases "csv w") (simp_all add: csv_to_json_def Let_def finish_def)

lemma csv_to_json_makes_out_dir: "out_dir (snd (csv_to_json can_open w)) \<noteq> None"
  by (simp add: out_dir_csv_to_json)

lemma csv_to_json_prints:
  "length (stdout w) < length (stdout (snd (csv_to_json can_open w)))"
proof -
  have p: "length (printed s) \<le> length (printed (process_row can_open r s))" for r s
    by (simp add: process_row_def say_def Let_def split: outcome.splits)
  have mono: "length (printed s) \<le> length (printed (process_rows can_open rs s))" for rs s
  proof (induction rs arbitrary: s)
    case Nil
    show ?case by simp
  next
    case (Cons r rs)
    show ?case using Cons.IH [of "process_row can_open r s"] p [of s r] by simp
  qed
  have run: "length (stdout w) < length (printed (process_rows can_open rs (start w)))" for rs
  proof -
    have "length (stdout w) < length (printed (start w))" by (simp add: start_def)
    also have "\<dots> \<le> length (printed (process_rows can_open rs (start w)))" by (rule mono)
    finally show ?thesis .
  qed
  show ?thesis
  proof (cases "csv w")
    case Absent
    then show ?thesis by (simp add: csv_to_json_def)
  next
    case (Rows rs)
    then show ?thesis using run [of rs]
      by (simp add: csv_to_json_def Let_def finish_def say_def)
  next
    case (Broken rs)
    then show ?thesis using run [of rs]
      by (simp add: csv_to_json_def Let_def finish_def say_def)
  qed
qed

lemma out_dir_download_csv: "out_dir (snd (download_csv resp w)) = out_dir w"
  by (cases resp) (simp_all add: download_csv_def Let_def)

lemma gem_row_blank_cut:
  "row_outcome (gem_row (u ''Ruby'') [] (u ''3'')) = Skip (SkipMissingFields (u ''7''))"
  using gem_row_not_empty [of "u ''Ruby''" "[]" "u ''3''"]
    gem_row_fields [of "u ''Ruby''" "[]" "u ''3''"]
  by (simp add: row_outcome_fields build_incomplete stripped_literals)

lemma gem_row_bad_carat:
  "row_outcome (gem_row (u ''Ruby'') (u ''Brilliant'') (u ''three'')) =
     Skip (SkipInvalidCarat (u ''7'') (u ''three''))"
proof -
  have "py_int (u ''three'') = None" by (simp add: int_simps)
  then show ?thesis
    using row_invalid_carat [OF gem_row_not_empty gem_row_fields,
        of "u ''Ruby''" "u ''Brilliant''" "u ''three''"]
    by (simp add: color_name_def stripped_literals nonblank_literals literals)
qed

lemma mixed_run:
  "process_rows (\<lambda>_. True) mixed_table (start mixed_world) =
     \<lparr>processed_count = 1, skipped_count = 2,
      files = [u ''7.json'' \<mapsto>
                 gem_document (u ''A unique RoundBrilliant cut gemstone in Ruby color.'')
                   (u ''Brilliant'') (u ''Ruby'') 3],
      printed = [Converting, InputFile, OutputFile, UsingColumns REQUIRED_COLUMNS,
                 SkipMissingFields (u ''7''), SkipInvalidCarat (u ''7'') (u ''three'')]\<rparr>"
  by (simp add: mixed_table_def mixed_world_def start_def mkdir_def process_row_Emit [OF gem_rows(1)]
      process_row_Skip [OF gem_row_blank_cut] process_row_Skip [OF gem_row_bad_carat] json_name)

section \<open>Rows without an identifier\<close>

text \<open>
  C6. A row whose identifier column is not in the header, is \<open>None\<close> or is blank after
  trimming is passed over in silence: the loop body leaves the counters, the files and
  the output as they were, and a table with such a row gives the run the table without it
  gives.
\<close>

theorem blank_identifier_silently_skipped:
  assumes "r (u ''ID'') = None \<or> r (u ''ID'') = Some PyNone \<or>
           (\<exists>s. r (u ''ID'') = Some (Str s) \<and> py_strip s = [])"
  shows "row_outcome r = Spacer \<and> process_row can_open r st = st \<and>
         process_rows can_open (rs @ r # rs') st = process_rows can_open (rs @ rs') st"
proof -
  have "empty_row r" using assms by (auto simp: empty_row_iff)
  then have "row_outcome r = Spacer" by (simp add: row_outcome_def)
  then show ?thesis by (simp add: process_row_Spacer process_rows_append)
qed

theorem blank_identifier_witness:
  "process_row (\<lambda>_. True) (dict_row REQUIRED_COLUMNS spacer_line) no_files = no_files"
proof -
  let ?r = "dict_row REQUIRED_COLUMNS spacer_line"
  have "?r (u ''ID'') = Some (Str (u ''  ''))"
    by (simp add: spacer_line_def dict_row_full key_simps)
  moreover have "py_strip (u ''  '') = []"
    by (simp add: str_simps)
  ultimately show ?thesis
    using blank_identifier_silently_skipped [of ?r "\<lambda>_. True" no_files "[]" "[]"] by blast
qed

section \<open>Rows that miss a column\<close>

text \<open>
  C1, as the script has it. Take a row with an identifier. If the line is too short for
  one of the nine other columns (its value is \<open>None\<close>), or the header lacks one of the
  columns for the name, Cut, Carat, Clarity, Rarity, image and animation_url, or it lacks
  both Category and Color, then the loop body adds one to the skipped count, prints one
  line and leaves the files and the processed count as they were.
\<close>

theorem missing_column_skipped:
  assumes "\<not> empty_row r"
    and "(\<exists>k \<in> set (tl REQUIRED_COLUMNS). r k = Some PyNone) \<or>
         r name_column = None \<or> r (u ''Cut'') = None \<or> r (u ''Carat'') = None \<or>
         r (u ''Clarity'') = None \<or> r (u ''Rarity'') = None \<or> r (u ''image'') = None \<or>
         r (u ''animation_url'') = None \<or>
         (r (u ''Category'') = None \<and> r (u ''Color'') = None)"
  shows "\<exists>m. process_row can_open r st =
               st\<lparr>skipped_count := skipped_count st + 1, printed := printed st @ [m]\<rparr>"
proof -
  have "\<exists>m. row_outcome r = Skip m"
  proof (cases "extract_fields r")
    case (Inl e)
    then show ?thesis using assms(1) by (simp add: row_outcome_def)
  next
    case (Inr f)
    note blank = absent_column_blank [OF Inr]
    have "\<not> (\<exists>k \<in> set (tl REQUIRED_COLUMNS). r k = Some PyNone)"
    proof
      assume "\<exists>k \<in> set (tl REQUIRED_COLUMNS). r k = Some PyNone"
      then obtain k where tl: "k \<in> set (tl REQUIRED_COLUMNS)" and k: "r k = Some PyNone" ..
      from tl have "k \<in> set REQUIRED_COLUMNS" by (rule in_set_tl)
      then have "r k \<noteq> Some PyNone" by (rule extract_fields_no_None [OF Inr])
      with k show False by simp
    qed
    with assms(2) have "r name_column = None \<or> r (u ''Cut'') = None \<or> r (u ''Carat'') = None \<or>
         r (u ''Clarity'') = None \<or> r (u ''Rarity'') = None \<or> r (u ''image'') = None \<or>
         r (u ''animation_url'') = None \<or>
         (r (u ''Category'') = None \<and> r (u ''Color'') = None)"
      by simp
    then have "name f = [] \<or> color_name f = [] \<or> cut_f f = [] \<or> carat f = [] \<or> clarity f = [] \<or>
      rarity f = [] \<or> image_f f = [] \<or> animation_url f = []"
      by (elim disjE conjE) (simp_all add: blank color_name_def)
    then have "build f = Inl (SkipMissingFields (gem_id f))" by (rule build_incomplete)
    with assms(1) Inr show ?thesis by (simp add: row_outcome_fields)
  qed
  then obtain m where "row_outcome r = Skip m" ..
  then have "process_row can_open r st =
               st\<lparr>skipped_count := skipped_count st + 1, printed := printed st @ [m]\<rparr>"
    by (rule process_row_Skip)
  then show ?thesis ..
qed

theorem missing_column_skipped_witness:
  "\<exists>m. process_row (\<lambda>_. True) no_cut_row no_files =
         no_files\<lparr>skipped_count := skipped_count no_files + 1,
                   printed := printed no_files @ [m]\<rparr>"
proof -
  have "no_cut_row (u ''Cut'') = None"
    by (simp add: no_cut_row_eq key_simps)
  then show ?thesis
    using missing_column_skipped [OF example_rows_not_empty(2), of "\<lambda>_. True" no_files]
    by simp
qed

text \<open>
  The claim as it was stated does not hold for Category and Color, since either stands
  in for the other: the row of a table without a \<open>Category\<close> column is written as a
  document and nothing is counted. Where a missing column does make the row skipped, as
  \<open>Cut\<close> does, the line printed carries the identifier and no column name.
\<close>

theorem missing_column_counterexample:
  "no_category_row (u ''Category'') = None \<and>
   process_row (\<lambda>_. True) no_category_row no_files =
     no_files\<lparr>files :=
                [u ''7.json'' \<mapsto>
                   gem_document (u ''A unique RoundBrilliant cut gemstone in #FF0000 color.'')
                     (u ''Brilliant'') (u ''#FF0000'') 3],
              processed_count := 1\<rparr> \<and>
   no_cut_row (u ''Cut'') = None \<and>
   process_row (\<lambda>_. True) no_cut_row no_files =
     no_files\<lparr>skipped_count := 1, printed := [SkipMissingFields (u ''7'')]\<rparr>"
proof -
  have "no_category_row (u ''Category'') = None"
    by (simp add: no_category_row_eq key_simps)
  moreover have "no_cut_row (u ''Cut'') = None"
    by (simp add: no_cut_row_eq key_simps)
  moreover have "row_outcome no_category_row =
      Emit (u ''7'')
        (gem_document (u ''A unique RoundBrilliant cut gemstone in #FF0000 color.'')
           (u ''Brilliant'') (u ''#FF0000'') 3)"
    using row_emits [OF example_rows_not_empty(1) no_category_row_fields, of 3]
    by (simp add: color_name_def literals nonblank_literals py_int_3 descriptions
        gem_document_json_data)
  then have "process_row (\<lambda>_. True) no_category_row no_files =
     no_files\<lparr>files :=
                [u ''7.json'' \<mapsto>
                   gem_document (u ''A unique RoundBrilliant cut gemstone in #FF0000 color.'')
                     (u ''Brilliant'') (u ''#FF0000'') 3],
              processed_count := 1\<rparr>"
    by (simp add: process_row_Emit json_name no_files_def)
  moreover have "row_outcome no_cut_row = Skip (SkipMissingFields (u ''7''))"
    using example_rows_not_empty(2) no_cut_row_fields
    by (simp add: row_outcome_fields build_incomplete)
  then have "process_row (\<lambda>_. True) no_cut_row no_files =
     no_files\<lparr>skipped_count := 1, printed := [SkipMissingFields (u ''7'')]\<rparr>"
    by (simp add: process_row_Skip no_files_def)
  ultimately show ?thesis by simp
qed

section \<open>The carat\<close>

text \<open>
  C2. Take a row that has an identifier, whose ten columns are read without an exception
  (\<open>f\<close> holds the trimmed values) and whose eight required values are not blank. If the
  trimmed carat is \<open>3\<close> and the file of the row can be opened, the loop body writes under
  the identifier the document spelled out below, whose Carat trait is the integer 3, adds
  one to the processed count and leaves the skipped count. If \<open>int\<close> refuses the trimmed
  carat, as it refuses \<open>3.5\<close> and \<open>three\<close>, the loop body adds one to the skipped count and
  prints the line that carries the trimmed identifier and the trimmed carat; the files
  and the processed count stay as they were.
\<close>

theorem carat_coercion:
  assumes "\<not> empty_row r" and "extract_fields r = Inr f"
    and "name f \<noteq> []" and "color_name f \<noteq> []" and "cut_f f \<noteq> []" and "carat f \<noteq> []"
    and "clarity f \<noteq> []" and "rarity f \<noteq> []" and "image_f f \<noteq> []" and "animation_url f \<noteq> []"
  shows "(carat f = u ''3'' \<and> can_open (gem_id f @ u ''.json'') \<longrightarrow>
            files (process_row can_open r st) =
              (files st)(gem_id f @ u ''.json'' \<mapsto>
                 JObj [(u ''name'', JStr (name f)),
                       (u ''description'', JStr (generate_description (cut_f f) (color_name f))),
                       (u ''attributes'',
                          JList [JObj [(u ''trait_type'', JStr (u ''Cut'')),
                                       (u ''value'', JStr (cut_f f))],
                                 JObj [(u ''trait_type'', JStr (u ''Color'')),
                                       (u ''value'', JStr (color_name f))],
                                 JObj [(u ''trait_type'', JStr (u ''Carat'')),
                                       (u ''value'', JInt 3)],
                                 JObj [(u ''trait_type'', JStr (u ''Clarity'')),
                                       (u ''value'', JStr (clarity f))],
                                 JObj [(u ''trait_type'', JStr (u ''Rarity'')),
                                       (u ''value'', JStr (rarity f))]]),
                       (u ''image'', JStr (image_f f)),
                       (u ''animation_url'', JStr (animation_url f))]) \<and>
            processed_count (process_row can_open r st) = processed_count st + 1 \<and>
            skipped_count (process_row can_open r st) = skipped_count st) \<and>
         (py_int (carat f) = None \<longrightarrow>
            process_row can_open r st =
              st\<lparr>skipped_count := skipped_count st + 1,
                 printed := printed st @ [SkipInvalidCarat (gem_id f) (carat f)]\<rparr>) \<and>
         py_int (u ''3.5'') = None \<and> py_int (u ''three'') = None"
proof (intro conjI impI)
  assume a: "carat f = u ''3'' \<and> can_open (gem_id f @ u ''.json'')"
  then have "py_int (carat f) = Some 3" by (simp add: py_int_3)
  with assms have e: "row_outcome r =
              Emit (gem_id f)
                (json_data (name f) (generate_description (cut_f f) (color_name f)) (cut_f f)
                   (color_name f) 3 (clarity f) (rarity f) (image_f f) (animation_url f))"
    by (rule row_emits)
  from a have o: "can_open (gem_id f @ u ''.json'')" ..
  note w = process_row_writes [where can_open = can_open and st = st, OF e o]
  show "files (process_row can_open r st) =
              (files st)(gem_id f @ u ''.json'' \<mapsto>
                 JObj [(u ''name'', JStr (name f)),
                       (u ''description'', JStr (generate_description (cut_f f) (color_name f))),
                       (u ''attributes'',
                          JList [JObj [(u ''trait_type'', JStr (u ''Cut'')),
                                       (u ''value'', JStr (cut_f f))],
                                 JObj [(u ''trait_type'', JStr (u ''Color'')),
                                       (u ''value'', JStr (color_name f))],
                                 JObj [(u ''trait_type'', JStr (u ''Carat'')),
                                       (u ''value'', JInt 3)],
                                 JObj [(u ''trait_type'', JStr (u ''Clarity'')),
                                       (u ''value'', JStr (clarity f))],
                                 JObj [(u ''trait_type'', JStr (u ''Rarity'')),
                                       (u ''value'', JStr (rarity f))]]),
                       (u ''image'', JStr (image_f f)),
                       (u ''animation_url'', JStr (animation_url f))])"
    unfolding w(1) by (simp add: json_data_def trait_def)
  show "processed_count (process_row can_open r st) = processed_count st + 1"
    by (rule w(2))
  show "skipped_count (process_row can_open r st) = skipped_count st"
    by (rule w(3))
next
  assume "py_int (carat f) = None"
  with assms have "row_outcome r = Skip (SkipInvalidCarat (gem_id f) (carat f))"
    by (rule row_invalid_carat)
  then show "process_row can_open r st =
              st\<lparr>skipped_count := skipped_count st + 1,
                 printed := printed st @ [SkipInvalidCarat (gem_id f) (carat f)]\<rparr>"
    by (rule process_row_Skip)
next
  show "py_int (u ''3.5'') = None" by (simp add: int_simps)
  show "py_int (u ''three'') = None" by (simp add: int_simps)
qed

theorem carat_coercion_witness:
  "process_row (\<lambda>_. True) (gem_row (u '' Ruby  '') (u '' Brilliant '') (u '' 3 '')) no_files =
     no_files\<lparr>files :=
                [u ''7.json'' \<mapsto>
                   gem_document (u ''A unique RoundBrilliant cut gemstone in Ruby color.'')
                     (u ''Brilliant'') (u ''Ruby'') 3],
              processed_count := 1\<rparr> \<and>
   process_row (\<lambda>_. True) (gem_row (u '' Ruby  '') (u '' Brilliant '') (u '' 3.5 '')) no_files =
     no_files\<lparr>skipped_count := 1, printed := [SkipInvalidCarat (u ''7'') (u ''3.5'')]\<rparr> \<and>
   process_row (\<lambda>_. True) (gem_row (u '' Ruby  '') (u '' Brilliant '') (u '' three'')) no_files =
     no_files\<lparr>skipped_count := 1, printed := [SkipInvalidCarat (u ''7'') (u ''three'')]\<rparr>"
proof -
  note c = carat_coercion [OF gem_row_not_empty gem_row_fields, where can_open = "\<lambda>_. True"
      and st = no_files]
  have w: "process_row (\<lambda>_. True) (gem_row (u '' Ruby  '') (u '' Brilliant '') (u '' 3 ''))
             no_files =
           no_files\<lparr>files :=
                [u ''7.json'' \<mapsto>
                   gem_document (u ''A unique RoundBrilliant cut gemstone in Ruby color.'')
                     (u ''Brilliant'') (u ''Ruby'') 3],
              processed_count := 1\<rparr>"
    by (simp add: process_row_Emit [OF padded_gem_rows(1)] json_name no_files_def)
  show ?thesis
    using c [of "u '' Ruby  ''" "u '' Brilliant ''" "u '' 3.5 ''"]
      c [of "u '' Ruby  ''" "u '' Brilliant ''" "u '' three''"]
      c [of "u '' Ruby  ''" "u '' Brilliant ''" "u '' 3 ''"] w
    by (simp add: padded_literals nonblank_literals literals color_name_def no_files_def)
qed

text \<open>
  C10. For the same rows, the trimmed carats \<open>+3\<close>, \<open>-3\<close> and \<open>1_0\<close> are read by
  \<open>int\<close> as 3, -3 and 10; if the file of the row can be opened, the loop body writes
  the document with that integer as its Carat trait, adds one to the processed count and
  leaves the skipped count.
\<close>

theorem carat_sign_and_underscore_accepted:
  assumes "\<not> empty_row r" and "extract_fields r = Inr f"
    and "name f \<noteq> []" and "color_name f \<noteq> []" and "cut_f f \<noteq> []"
    and "clarity f \<noteq> []" and "rarity f \<noteq> []" and "image_f f \<noteq> []" and "animation_url f \<noteq> []"
    and "(carat f, k) \<in> {(u ''+3'', 3), (u ''-3'', - 3), (u ''1_0'', 10)}"
    and "can_open (gem_id f @ u ''.json'')"
  shows "py_int (carat f) = Some k \<and>
         files (process_row can_open r st) =
           (files st)(gem_id f @ u ''.json'' \<mapsto>
              JObj [(u ''name'', JStr (name f)),
                    (u ''description'', JStr (generate_description (cut_f f) (color_name f))),
                    (u ''attributes'',
                       JList [JObj [(u ''trait_type'', JStr (u ''Cut'')), (u ''value'', JStr (cut_f f))],
                              JObj [(u ''trait_type'', JStr (u ''Color'')), (u ''value'', JStr (color_name f))],
                              JObj [(u ''trait_type'', JStr (u ''Carat'')), (u ''value'', JInt k)],
                              JObj [(u ''trait_type'', JStr (u ''Clarity'')), (u ''value'', JStr (clarity f))],
                              JObj [(u ''trait_type'', JStr (u ''Rarity'')), (u ''value'', JStr (rarity f))]]),
                    (u ''image'', JStr (image_f f)),
                    (u ''animation_url'', JStr (animation_url f))]) \<and>
         processed_count (process_row can_open r st) = processed_count st + 1 \<and>
         skipped_count (process_row can_open r st) = skipped_count st"
proof -
  have k: "py_int (carat f) = Some k"
    using assms(10) by (auto simp: py_int_lenient)
  then have "carat f \<noteq> []" by auto
  with assms k have e: "row_outcome r =
           Emit (gem_id f)
             (json_data (name f) (generate_description (cut_f f) (color_name f)) (cut_f f)
                (color_name f) k (clarity f) (rarity f) (image_f f) (animation_url f))"
    by (simp add: row_emits)
  note w = process_row_writes [where can_open = can_open and st = st, OF e assms(11)]
  show ?thesis using k w by (simp add: json_data_def trait_def)
qed

theorem carat_sign_and_underscore_witness:
  "files (process_row (\<lambda>_. True) (gem_row (u '' Ruby  '') (u '' Brilliant '') (u '' +3 '')) no_files) =
     [u ''7.json'' \<mapsto>
        gem_document (u ''A unique RoundBrilliant cut gemstone in Ruby color.'')
          (u ''Brilliant'') (u ''Ruby'') 3] \<and>
   skipped_count (process_row (\<lambda>_. True) (gem_row (u '' Ruby  '') (u '' Brilliant '') (u '' +3 '')) no_files) = 0 \<and>
   files (process_row (\<lambda>_. True) (gem_row (u '' Ruby  '') (u '' Brilliant '') (u ''-3 '')) no_files) =
     [u ''7.json'' \<mapsto>
        gem_document (u ''A unique RoundBrilliant cut gemstone in Ruby color.'')
          (u ''Brilliant'') (u ''Ruby'') (- 3)] \<and>
   skipped_count (process_row (\<lambda>_. True) (gem_row (u '' Ruby  '') (u '' Brilliant '') (u ''-3 '')) no_files) = 0 \<and>
   files (process_row (\<lambda>_. True) (gem_row (u '' Ruby  '') (u '' Brilliant '') (u '' 1_0'')) no_files) =
     [u ''7.json'' \<mapsto>
        gem_document (u ''A unique RoundBrilliant cut gemstone in Ruby color.'')
          (u ''Brilliant'') (u ''Ruby'') 10] \<and>
   skipped_count (process_row (\<lambda>_. True) (gem_row (u '' Ruby  '') (u '' Brilliant '') (u '' 1_0'')) no_files) = 0"
proof -
  note c = carat_sign_and_underscore_accepted [OF gem_row_not_empty gem_row_fields,
      where can_open = "\<lambda>_. True" and st = no_files]
  show ?thesis
    using c [of "u '' Ruby  ''" "u '' Brilliant ''" "u '' +3 ''" 3]
      c [of "u '' Ruby  ''" "u '' Brilliant ''" "u ''-3 ''" "- 3"]
      c [of "u '' Ruby  ''" "u '' Brilliant ''" "u '' 1_0''" 10]
    by (simp add: padded_literals nonblank_literals literals descriptions color_name_def
        gem_document_def json_name no_files_def)
qed

section \<open>The colour, the description and the shape of a document\<close>

text \<open>
  C3. A document that a row emits is the one the loop body writes when the file can be
  opened, and in it the value of the Color trait is the trimmed Category value when that
  is not blank, and the trimmed Color value otherwise.
\<close>

theorem color_trait_is_category_else_color:
  assumes "row_outcome r = Emit i d"
  shows "(can_open (i @ u ''.json'') \<longrightarrow>
            files (process_row can_open r st) (i @ u ''.json'') = Some d) \<and>
         (\<exists>category' color_code' name' description' cut' carat_value clarity' rarity' image'
            animation_url'.
            get_strip r (u ''Category'') = Inr category' \<and>
            get_strip r (u ''Color'') = Inr color_code' \<and>
            d = JObj [(u ''name'', JStr name'),
                      (u ''description'', JStr description'),
                      (u ''attributes'',
                         JList [JObj [(u ''trait_type'', JStr (u ''Cut'')), (u ''value'', JStr cut')],
                                JObj [(u ''trait_type'', JStr (u ''Color'')), (u ''value'', JStr (if category' \<noteq> [] then category' else color_code'))],
                                JObj [(u ''trait_type'', JStr (u ''Carat'')), (u ''value'', JInt carat_value)],
                                JObj [(u ''trait_type'', JStr (u ''Clarity'')), (u ''value'', JStr clarity')],
                                JObj [(u ''trait_type'', JStr (u ''Rarity'')), (u ''value'', JStr rarity')]]),
                      (u ''image'', JStr image'),
                      (u ''animation_url'', JStr animation_url')])"
proof
  show "can_open (i @ u ''.json'') \<longrightarrow>
          files (process_row can_open r st) (i @ u ''.json'') = Some d"
    using process_row_writes(1) [where can_open = can_open and st = st, OF assms] by simp
next
  from assms obtain f where f: "extract_fields r = Inr f" "build f = Inr (i, d)"
    by (auto simp: row_outcome_Emit)
  from f(2) obtain k where
    d: "d = json_data (name f) (generate_description (cut_f f) (color_name f)) (cut_f f)
           (color_name f) k (clarity f) (rarity f) (image_f f) (animation_url f)"
    by (auto simp: build_Inr)
  have g: "get_strip r (u ''Category'') = Inr (category f)"
    "get_strip r (u ''Color'') = Inr (color_code f)"
    using f(1) by (simp_all add: extract_fields_Inr)
  show "\<exists>category' color_code' name' description' cut' carat_value clarity' rarity' image'
            animation_url'.
            get_strip r (u ''Category'') = Inr category' \<and>
            get_strip r (u ''Color'') = Inr color_code' \<and>
            d = JObj [(u ''name'', JStr name'),
                      (u ''description'', JStr description'),
                      (u ''attributes'',
                         JList [JObj [(u ''trait_type'', JStr (u ''Cut'')), (u ''value'', JStr cut')],
                                JObj [(u ''trait_type'', JStr (u ''Color'')), (u ''value'', JStr (if category' \<noteq> [] then category' else color_code'))],
                                JObj [(u ''trait_type'', JStr (u ''Carat'')), (u ''value'', JInt carat_value)],
                                JObj [(u ''trait_type'', JStr (u ''Clarity'')), (u ''value'', JStr clarity')],
                                JObj [(u ''trait_type'', JStr (u ''Rarity'')), (u ''value'', JStr rarity')]]),
                      (u ''image'', JStr image'),
                      (u ''animation_url'', JStr animation_url')]"
    apply (rule exI [of _ "category f"])
    apply (rule exI [of _ "color_code f"])
    apply (rule exI [of _ "name f"])
    apply (rule exI [of _ "generate_description (cut_f f) (color_name f)"])
    apply (rule exI [of _ "cut_f f"])
    apply (rule exI [of _ k])
    apply (rule exI [of _ "clarity f"])
    apply (rule exI [of _ "rarity f"])
    apply (rule exI [of _ "image_f f"])
    apply (rule exI [of _ "animation_url f"])
    using d g by (simp add: json_data_def trait_def color_name_def)
qed

theorem color_trait_witness:
  "files (process_row (\<lambda>_. True) (gem_row (u '' Ruby  '') (u '' Brilliant '') (u '' 3 '')) no_files)
     (u ''7.json'') =
     Some (gem_document (u ''A unique RoundBrilliant cut gemstone in Ruby color.'')
             (u ''Brilliant'') (u ''Ruby'') 3) \<and>
   files (process_row (\<lambda>_. True) (gem_row (u ''  '') (u '' Brilliant '') (u '' 3 '')) no_files)
     (u ''7.json'') =
     Some (gem_document (u ''A unique RoundBrilliant cut gemstone in #FF0000 color.'')
             (u ''Brilliant'') (u ''#FF0000'') 3)"
  using color_trait_is_category_else_color [OF padded_gem_rows(1), of "\<lambda>_. True" no_files]
    color_trait_is_category_else_color [OF padded_gem_rows(2), of "\<lambda>_. True" no_files]
  by (simp add: json_name)

text \<open>
  C4. A document that a row emits is the one the loop body writes when the file can be
  opened. Its description is the sentence built from the trimmed Cut value, with
  \<open>Brilliant\<close> shown as \<open>RoundBrilliant\<close>, and from the resolved colour, while its Cut
  trait holds the trimmed Cut value itself.
\<close>

theorem description_and_cut_trait:
  assumes "row_outcome r = Emit i d"
  shows "(can_open (i @ u ''.json'') \<longrightarrow>
            files (process_row can_open r st) (i @ u ''.json'') = Some d) \<and>
         (\<exists>cut' category' color_code' name' carat_value clarity' rarity' image' animation_url'.
            get_strip r (u ''Cut'') = Inr cut' \<and>
            get_strip r (u ''Category'') = Inr category' \<and>
            get_strip r (u ''Color'') = Inr color_code' \<and>
            d = JObj [(u ''name'', JStr name'),
                      (u ''description'', JStr (u ''A unique '' @
                       (if cut' = u ''Brilliant'' then u ''RoundBrilliant'' else cut') @
                       u '' cut gemstone in '' @ (if category' \<noteq> [] then category' else color_code') @
                       u '' color.'')),
                      (u ''attributes'',
                         JList [JObj [(u ''trait_type'', JStr (u ''Cut'')), (u ''value'', JStr cut')],
                                JObj [(u ''trait_type'', JStr (u ''Color'')), (u ''value'', JStr (if category' \<noteq> [] then category' else color_code'))],
                                JObj [(u ''trait_type'', JStr (u ''Carat'')), (u ''value'', JInt carat_value)],
                                JObj [(u ''trait_type'', JStr (u ''Clarity'')), (u ''value'', JStr clarity')],
                                JObj [(u ''trait_type'', JStr (u ''Rarity'')), (u ''value'', JStr rarity')]]),
                      (u ''image'', JStr image'),
                      (u ''animation_url'', JStr animation_url')])"
proof
  show "can_open (i @ u ''.json'') \<longrightarrow>
          files (process_row can_open r st) (i @ u ''.json'') = Some d"
    using process_row_writes(1) [where can_open = can_open and st = st, OF assms] by simp
next
  from assms obtain f where f: "extract_fields r = Inr f" "build f = Inr (i, d)"
    by (auto simp: row_outcome_Emit)
  from f(2) obtain k where
    d: "d = json_data (name f) (generate_description (cut_f f) (color_name f)) (cut_f f)
           (color_name f) k (clarity f) (rarity f) (image_f f) (animation_url f)"
    by (auto simp: build_Inr)
  have g: "get_strip r (u ''Cut'') = Inr (cut_f f)"
    "get_strip r (u ''Category'') = Inr (category f)"
    "get_strip r (u ''Color'') = Inr (color_code f)"
    using f(1) by (simp_all add: extract_fields_Inr)
  show "\<exists>cut' category' color_code' name' carat_value clarity' rarity' image' animation_url'.
            get_strip r (u ''Cut'') = Inr cut' \<and>
            get_strip r (u ''Category'') = Inr category' \<and>
            get_strip r (u ''Color'') = Inr color_code' \<and>
            d = JObj [(u ''name'', JStr name'),
                      (u ''description'', JStr (u ''A unique '' @
                       (if cut' = u ''Brilliant'' then u ''RoundBrilliant'' else cut') @
                       u '' cut gemstone in '' @ (if category' \<noteq> [] then category' else color_code') @
                       u '' color.'')),
                      (u ''attributes'',
                         JList [JObj [(u ''trait_type'', JStr (u ''Cut'')), (u ''value'', JStr cut')],
                                JObj [(u ''trait_type'', JStr (u ''Color'')), (u ''value'', JStr (if category' \<noteq> [] then category' else color_code'))],
                                JObj [(u ''trait_type'', JStr (u ''Carat'')), (u ''value'', JInt carat_value)],
                                JObj [(u ''trait_type'', JStr (u ''Clarity'')), (u ''value'', JStr clarity')],
                                JObj [(u ''trait_type'', JStr (u ''Rarity'')), (u ''value'', JStr rarity')]]),
                      (u ''image'', JStr image'),
                      (u ''animation_url'', JStr animation_url')]"
    apply (rule exI [of _ "cut_f f"])
    apply (rule exI [of _ "category f"])
    apply (rule exI [of _ "color_code f"])
    apply (rule exI [of _ "name f"])
    apply (rule exI [of _ k])
    apply (rule exI [of _ "clarity f"])
    apply (rule exI [of _ "rarity f"])
    apply (rule exI [of _ "image_f f"])
    apply (rule exI [of _ "animation_url f"])
    using d g by (simp add: json_data_def trait_def color_name_def generate_description_def)
qed

theorem description_witness:
  "files (process_row (\<lambda>_. True) (gem_row (u '' Ruby  '') (u '' Brilliant '') (u '' 3 '')) no_files)
     (u ''7.json'') =
     Some (gem_document (u ''A unique RoundBrilliant cut gemstone in Ruby color.'')
             (u ''Brilliant'') (u ''Ruby'') 3) \<and>
   files (process_row (\<lambda>_. True) (gem_row (u '' Emerald'') (u ''Princess '') (u '' 3 '')) no_files)
     (u ''7.json'') =
     Some (gem_document (u ''A unique Princess cut gemstone in Emerald color.'')
             (u ''Princess'') (u ''Emerald'') 3)"
  using description_and_cut_trait [OF padded_gem_rows(1), of "\<lambda>_. True" no_files]
    description_and_cut_trait [OF padded_gem_rows(3), of "\<lambda>_. True" no_files]
  by (simp add: json_name)



section \<open>The transform as a whole\<close>

text \<open>
  C7, as the script has it. The transform returns failure exactly when the file at the
  CSV path is absent or reading it raises; whatever its rows are, a table read to its end
  gives success. Each row adds to the two counters what it adds when it is run alone,
  whatever came before it. At the end of a table read to its end the processed count is
  printed, and the skipped count is printed when it is greater than zero.
\<close>

theorem transform_fails_only_on_unreadable_table:
  "(\<not> fst (csv_to_json can_open w)) = (csv w = Absent \<or> (\<exists>rs. csv w = Broken rs)) \<and>
   (\<forall>rs. csv w = Rows rs \<longrightarrow>
      (let s = process_rows can_open rs (start w) in
         processed_count s = (\<Sum>r\<leftarrow>rs. processed_count (process_row can_open r no_files)) \<and>
         skipped_count s = (\<Sum>r\<leftarrow>rs. skipped_count (process_row can_open r no_files)) \<and>
         stdout (snd (csv_to_json can_open w)) =
           printed s @ [Generated (processed_count s)] @
           (if 0 < skipped_count s then [Skipped (skipped_count s)] else []) @
           [OutputDirectory]))"
proof (intro conjI allI impI)
  show "(\<not> fst (csv_to_json can_open w)) = (csv w = Absent \<or> (\<exists>rs. csv w = Broken rs))"
    by (cases "csv w") (simp_all add: csv_to_json_def Let_def)
next
  fix rs
  assume "csv w = Rows rs"
  then show "let s = process_rows can_open rs (start w) in
         processed_count s = (\<Sum>r\<leftarrow>rs. processed_count (process_row can_open r no_files)) \<and>
         skipped_count s = (\<Sum>r\<leftarrow>rs. skipped_count (process_row can_open r no_files)) \<and>
         stdout (snd (csv_to_json can_open w)) =
           printed s @ [Generated (processed_count s)] @
           (if 0 < skipped_count s then [Skipped (skipped_count s)] else []) @
           [OutputDirectory]"
    by (simp add: csv_to_json_def Let_def process_rows_processed process_rows_skipped
        start_counts finish_def say_def summary_def)
qed

theorem transform_witness:
  "fst (csv_to_json (\<lambda>_. True) mixed_world) \<and>
   stdout (snd (csv_to_json (\<lambda>_. True) mixed_world)) =
     [Converting, InputFile, OutputFile, UsingColumns REQUIRED_COLUMNS,
      SkipMissingFields (u ''7''), SkipInvalidCarat (u ''7'') (u ''three''),
      Generated 1, Skipped 2, OutputDirectory]"
proof -
  have "csv mixed_world = Rows mixed_table" by (simp add: mixed_world_def)
  then show ?thesis
    using transform_fails_only_on_unreadable_table [of "\<lambda>_. True" mixed_world]
    by (simp add: mixed_run Let_def)
qed

text \<open>
  The claim as it was stated has the skipped count reported at the end of every run. For
  a table of one complete row the transform prints the processed count and no line for
  the skipped count.
\<close>

theorem skipped_count_counterexample:
  "csv_to_json (\<lambda>_. True) good_world =
     (True,
      good_world
        \<lparr>out_dir := Some [u ''7.json'' \<mapsto>
                 gem_document (u ''A unique RoundBrilliant cut gemstone in Ruby color.'')
                   (u ''Brilliant'') (u ''Ruby'') 3],
         stdout := [Converting, InputFile, OutputFile, UsingColumns REQUIRED_COLUMNS,
                    Generated 1, OutputDirectory]\<rparr>)"
  by (simp add: csv_to_json_def good_world_def start_def mkdir_def finish_def say_def summary_def
      process_row_Emit [OF gem_rows(1)] json_name)

text \<open>
  C9. A second run of the transform on the same table leaves the output directory as
  the first run left it, file by file; the transform does not touch the table.
\<close>

theorem transform_idempotent:
  "out_dir (snd (csv_to_json can_open (snd (csv_to_json can_open w)))) =
     out_dir (snd (csv_to_json can_open w)) \<and>
   csv (snd (csv_to_json can_open w)) = csv w"
proof -
  let ?w = "snd (csv_to_json can_open w)"
  have "out_dir (snd (csv_to_json can_open ?w)) = out_dir ?w"
    unfolding out_dir_csv_to_json [of can_open ?w] csv_csv_to_json
    by (cases "csv w") (simp_all add: out_dir_csv_to_json mkdir_def map_add_twice)
  then show ?thesis by (simp add: csv_csv_to_json)
qed

theorem transform_idempotent_witness:
  "out_dir (snd (csv_to_json (\<lambda>_. True) (snd (csv_to_json (\<lambda>_. True) mixed_world)))) =
     Some [u ''7.json'' \<mapsto>
             gem_document (u ''A unique RoundBrilliant cut gemstone in Ruby color.'')
               (u ''Brilliant'') (u ''Ruby'') 3]"
proof -
  have "out_dir (snd (csv_to_json (\<lambda>_. True) mixed_world)) =
     Some [u ''7.json'' \<mapsto>
             gem_document (u ''A unique RoundBrilliant cut gemstone in Ruby color.'')
               (u ''Brilliant'') (u ''Ruby'') 3]"
    by (simp add: csv_to_json_def mixed_world_def Let_def finish_def say_def
        mixed_run [unfolded mixed_world_def])
  then show ?thesis
    using transform_idempotent [of "\<lambda>_. True" mixed_world] by simp
qed

section \<open>The orchestrator\<close>

text \<open>
  C8. With the download skipped and no file at the CSV path, the process exits with
  status 1 and the world is the one it started in but for six printed lines: the output
  directory is not even created and no line of the transform is printed, although the
  transform always creates the directory and prints (\<open>csv_to_json_makes_out_dir\<close>,
  \<open>csv_to_json_prints\<close>). With the download not skipped and failing, the run returns
  failure, the exit status is 1, and the world is the one the download left but for one
  more line; the output directory is as it was.
\<close>

theorem no_transform_without_table:
  "(csv w = Absent \<longrightarrow>
      main resp can_open True w =
        (1, w\<lparr>stdout := stdout w @ [Rule, Syncing, Rule, Blank, CsvNotFound, CannotSkip]\<rparr>)) \<and>
   (\<not> fst (download_csv resp (w\<lparr>stdout := stdout w @ [Rule, Syncing, Rule, Blank]\<rparr>)) \<longrightarrow>
      (let w1 = snd (download_csv resp (w\<lparr>stdout := stdout w @ [Rule, Syncing, Rule, Blank]\<rparr>))
       in sync_google_sheet resp can_open False w =
            (False, w1\<lparr>stdout := stdout w1 @ [FailedDownload]\<rparr>) \<and>
          out_dir w1 = out_dir w \<and>
          fst (main resp can_open False w) = 1))"
  by (simp add: main_def sync_google_sheet_def exists_def Let_def out_dir_download_csv
      split: prod.splits)

theorem no_transform_witness:
  "main (HTTPError 403) (\<lambda>_. True) True empty_world =
     (1, empty_world\<lparr>stdout := [Rule, Syncing, Rule, Blank, CsvNotFound, CannotSkip]\<rparr>) \<and>
   sync_google_sheet (HTTPError 403) (\<lambda>_. True) False empty_world =
     (False,
      empty_world\<lparr>stdout := [Rule, Syncing, Rule, Blank, Downloading, Url, HttpError 403,
                             NotPublic, PleaseShare, FailedDownload]\<rparr>)"
proof -
  have "csv empty_world = Absent" by (simp add: empty_world_def)
  moreover have
    "download_csv (HTTPError 403) (empty_world\<lparr>stdout := stdout empty_world @ [Rule, Syncing, Rule, Blank]\<rparr>) =
       (False, empty_world\<lparr>stdout := [Rule, Syncing, Rule, Blank, Downloading, Url, HttpError 403,
                             NotPublic, PleaseShare]\<rparr>)"
    by (simp add: download_csv_def empty_world_def Let_def)
  ultimately show ?thesis
    using no_transform_without_table [of empty_world "HTTPError 403" "\<lambda>_. True"]
    by (simp add: Let_def empty_world_def)
qed

end
